theory Spec2Isabelle
  imports Main
begin

section \<open>Data model of \<open>os_client_config/cloud_config.py\<close>\<close>

text \<open>
  Values held by the configuration mapping. Python's \<open>None\<close>, booleans, integers,
  strings and two-element tuples (the \<open>(cert, key)\<close> pair) are covered; floating point
  values are not part of the embedding.
\<close>

datatype pyval = PNone | PBool bool | PInt int | PStr string | PTuple pyval pyval

text \<open>Python truthiness, as tested by \<open>if x\<close>, \<open>not x\<close> and \<open>x and y\<close>.\<close>

fun truthy :: "pyval \<Rightarrow> bool" where
  "truthy PNone = False"
| "truthy (PBool b) = b"
| "truthy (PInt i) = (i \<noteq> 0)"
| "truthy (PStr s) = (s \<noteq> [])"
| "truthy (PTuple a b) = True"

text \<open>
  Python's \<open>==\<close> on these values: \<open>bool\<close> is a subclass of \<open>int\<close>, so \<open>True == 1\<close>
  and \<open>False == 0\<close>. \<open>py_key\<close> maps a value to the representative of its equality class.
\<close>

fun py_key :: "pyval \<Rightarrow> pyval" where
  "py_key (PBool b) = PInt (if b then 1 else 0)"
| "py_key (PTuple a b) = PTuple (py_key a) (py_key b)"
| "py_key v = v"

definition py_eq :: "pyval \<Rightarrow> pyval \<Rightarrow> bool" where
  "py_eq a b = (py_key a = py_key b)"

text \<open>
  The merged configuration \<open>self.config\<close>: a dict from string keys to values, kept as an
  association list in stored order; \<open>map_of\<close> is the dict's lookup.
\<close>

type_synonym config = "(string \<times> pyval) list"

datatype error =
    KeyError string
  | OpenStackConfigException string
  | ExternalError string

text \<open>\<open>d[k]\<close> raises \<open>KeyError\<close> on a missing key; \<open>d.get(k, default)\<close> does not.\<close>

definition subscript :: "config \<Rightarrow> string \<Rightarrow> error + pyval" where
  "subscript d k = (case map_of d k of None \<Rightarrow> Inl (KeyError k) | Some v \<Rightarrow> Inr v)"

definition dict_get :: "config \<Rightarrow> string \<Rightarrow> pyval \<Rightarrow> pyval" where
  "dict_get d k dflt = (case map_of d k of None \<Rightarrow> dflt | Some v \<Rightarrow> v)"

text \<open>Python's \<open>d1 == d2\<close> on dicts: the same keys, with \<open>==\<close> values, in any order.\<close>

definition dict_eq :: "config \<Rightarrow> config \<Rightarrow> bool" where
  "dict_eq d1 d2 =
     (\<forall>k \<in> set (map fst d1 @ map fst d2).
        map_option py_key (map_of d1 k) = map_option py_key (map_of d2 k))"

subsection \<open>String helpers\<close>

text \<open>\<open>s.startswith(p)\<close> and \<open>s.endswith(p)\<close>.\<close>

definition startswith :: "string \<Rightarrow> string \<Rightarrow> bool" where
  "startswith s p = (take (length p) s = p)"

definition endswith :: "string \<Rightarrow> string \<Rightarrow> bool" where
  "endswith s p = (length p \<le> length s \<and> drop (length s - length p) s = p)"

text \<open>\<open>attr.replace('-', '_')\<close>.\<close>

definition replace_dash :: "string \<Rightarrow> string" where
  "replace_dash s = map (\<lambda>c. if c = CHR ''-'' then CHR ''_'' else c) s"

text \<open>\<open>s.split(c)\<close> for a one-character separator: empty fields are kept.\<close>

fun split :: "char \<Rightarrow> string \<Rightarrow> string list" where
  "split c [] = [[]]"
| "split c (x # xs) =
     (if x = c then [] # split c xs
      else (case split c xs of [] \<Rightarrow> [[x]] | w # ws \<Rightarrow> (x # w) # ws))"

text \<open>\<open>sep.join(parts)\<close>.\<close>

fun join :: "string \<Rightarrow> string list \<Rightarrow> string" where
  "join sep [] = []"
| "join sep [w] = w"
| "join sep (w # ws) = w @ sep @ join sep ws"

text \<open>\<open>xs[:-2]\<close>: all but the last two elements, the empty list when there are fewer.\<close>

definition drop_last2 :: "'a list \<Rightarrow> 'a list" where
  "drop_last2 xs = take (length xs - 2) xs"

subsection \<open>The profile\<close>

text \<open>
  The collaborators are opaque: an auth plugin is an identifier, the shared
  \<open>OpenStackConfig\<close> object is the record of what its five cache accessors return.
  \<open>_auth\<close> and \<open>_openstack_config\<close> are \<open>None\<close> when unbound.
\<close>

datatype auth_plugin = AuthPlugin nat

record openstack_config =
  cache_expiration_time :: pyval
  cache_path :: pyval
  cache_class :: pyval
  cache_arguments :: pyval
  cache_expiration :: config

text \<open>
  A Session object: its identity (the number of Session objects constructed before it)
  and the arguments \<open>session.Session(auth=, verify=, cert=, timeout=)\<close> was called with.
\<close>

record session =
  s_id :: nat
  s_auth :: auth_plugin
  s_verify :: pyval
  s_cert :: pyval
  s_timeout :: pyval

text \<open>\<open>CloudConfig\<close>, with the fields \<open>__init__\<close> sets (the logger apart).\<close>

record cloud_config =
  name :: string
  region :: string
  config :: config
  force_ipv4 :: bool
  auth :: "auth_plugin option"
  openstack_cfg :: "openstack_config option"
  keystone_session :: "session option"

text \<open>What the code emits besides its result.\<close>

datatype event =
    Warning string
  | LogDebug string
  | SquelchWarnings bool

text \<open>
  The program state: the profile, the number of Session objects constructed so far,
  and the events emitted so far.
\<close>

record state =
  self :: cloud_config
  sessions_created :: nat
  trace :: "event list"

text \<open>\<open>CloudConfig.__init__\<close>.\<close>

definition init :: "string \<Rightarrow> string \<Rightarrow> config \<Rightarrow> bool \<Rightarrow> auth_plugin option
    \<Rightarrow> openstack_config option \<Rightarrow> cloud_config" where
  "init nm rg cfg f4 au oc =
     \<lparr>name = nm, region = rg, config = cfg, force_ipv4 = f4, auth = au,
      openstack_cfg = oc, keystone_session = None\<rparr>"

section \<open>Attribute access, equality, service discovery\<close>

text \<open>\<open>CloudConfig.__getattr__\<close>.\<close>

definition getattr :: "cloud_config \<Rightarrow> string \<Rightarrow> error + pyval" where
  "getattr c key =
     (let key = (if startswith key ''os_'' then drop 3 key else key)
      in if key \<in> set (map (\<lambda>attr. replace_dash attr) (map fst (config c)))
         then subscript (config c) key
         else Inr PNone)"

text \<open>\<open>CloudConfig.__eq__\<close> and \<open>CloudConfig.__ne__\<close>.\<close>

definition eq :: "cloud_config \<Rightarrow> cloud_config \<Rightarrow> bool" where
  "eq a b = (name a = name b \<and> region a = region b \<and> dict_eq (config a) (config b))"

definition ne :: "cloud_config \<Rightarrow> cloud_config \<Rightarrow> bool" where
  "ne a b = (\<not> eq a b)"

text \<open>
  \<open>CloudConfig.get_services\<close>. The loop appends to \<open>services\<close> in key order;
  \<open>list(set(services))\<close> has no specified order, so the result is the set.
\<close>

fun services_loop :: "config \<Rightarrow> string list" where
  "services_loop [] = []"
| "services_loop ((key, val) # rest) =
     (if endswith key ''api_version''
         \<or> endswith key ''service_type''
         \<or> endswith key ''service_name''
      then join ''_'' (drop_last2 (split (CHR ''_'') key)) # services_loop rest
      else services_loop rest)"

definition get_services :: "cloud_config \<Rightarrow> string set" where
  "get_services c = set (services_loop (config c))"

section \<open>Per-service key resolution\<close>

text \<open>
  \<open>get_interface\<close> and \<open>get_region_name\<close> take an optional service type
  (\<open>None\<close> by default); \<open>not service_type\<close> holds for \<open>None\<close> and for the empty string.
\<close>

definition get_interface :: "cloud_config \<Rightarrow> string option \<Rightarrow> pyval" where
  "get_interface c service_type =
     (let interface = dict_get (config c) ''interface'' PNone
      in case service_type of
           None \<Rightarrow> interface
         | Some t \<Rightarrow> if t = [] then interface
                     else dict_get (config c) (t @ ''_interface'') interface)"

definition get_region_name :: "cloud_config \<Rightarrow> string option \<Rightarrow> pyval" where
  "get_region_name c service_type =
     (case service_type of
        None \<Rightarrow> PStr (region c)
      | Some t \<Rightarrow> if t = [] then PStr (region c)
                  else dict_get (config c) (t @ ''_region_name'') (PStr (region c)))"

definition get_api_version :: "cloud_config \<Rightarrow> string \<Rightarrow> pyval" where
  "get_api_version c service_type = dict_get (config c) (service_type @ ''_api_version'') PNone"

definition get_service_type :: "cloud_config \<Rightarrow> string \<Rightarrow> pyval" where
  "get_service_type c service_type =
     dict_get (config c) (service_type @ ''_service_type'') (PStr service_type)"

definition get_service_name :: "cloud_config \<Rightarrow> string \<Rightarrow> pyval" where
  "get_service_name c service_type = dict_get (config c) (service_type @ ''_service_name'') PNone"

definition get_endpoint :: "cloud_config \<Rightarrow> string \<Rightarrow> pyval" where
  "get_endpoint c service_type = dict_get (config c) (service_type @ ''_endpoint'') PNone"

section \<open>TLS and credential materialization\<close>

definition emit :: "event \<Rightarrow> state \<Rightarrow> state" where
  "emit ev st = st\<lparr>trace := trace st @ [ev]\<rparr>"

definition cacert_warning :: "string \<Rightarrow> string" where
  "cacert_warning nm =
     ''You are specifying a cacert for the cloud '' @ nm @ '' but ''
     @ ''also to ignore the host verification. The host SSL cert ''
     @ ''will not be verified.''"

text \<open>
  \<open>get_requests_verify_args\<close>, lines 61 to 69: the effective \<open>verify\<close> value.
  \<open>self.config['verify'] and self.config['cacert']\<close> reads \<open>cacert\<close> only when
  \<open>verify\<close> is truthy; the \<open>else\<close> branch reads it again.
\<close>

definition verify_value :: "state \<Rightarrow> (error + pyval) \<times> state" where
  "verify_value st =
     (let c = config (self st) in
      case subscript c ''verify'' of
        Inl e \<Rightarrow> (Inl e, st)
      | Inr v \<Rightarrow>
          (case (if truthy v then subscript c ''cacert'' else Inr v) of
             Inl e \<Rightarrow> (Inl e, st)
           | Inr both \<Rightarrow>
               if truthy both then (subscript c ''cacert'', st)
               else (case subscript c ''cacert'' of
                       Inl e \<Rightarrow> (Inl e, st)
                     | Inr ca \<Rightarrow>
                         (Inr v, if truthy ca
                                 then emit (Warning (cacert_warning (name (self st)))) st
                                 else st))))"

text \<open>Lines 71 to 74: the client certificate, paired with the key when there is one.\<close>

definition client_cert :: "config \<Rightarrow> error + pyval" where
  "client_cert c =
     (let cert = dict_get c ''cert'' PNone
      in if truthy cert
         then (case subscript c ''key'' of
                 Inl e \<Rightarrow> Inl e
               | Inr k \<Rightarrow> if truthy k then Inr (PTuple cert k) else Inr cert)
         else Inr cert)"

definition get_requests_verify_args :: "state \<Rightarrow> (error + pyval \<times> pyval) \<times> state" where
  "get_requests_verify_args st =
     (case verify_value st of
        (Inl e, st1) \<Rightarrow> (Inl e, st1)
      | (Inr verify, st1) \<Rightarrow>
          (case client_cert (config (self st1)) of
             Inl e \<Rightarrow> (Inl e, st1)
           | Inr cert \<Rightarrow> (Inr (verify, cert), st1)))"

section \<open>Session acquisition\<close>

definition ssl_debug_message :: "string \<Rightarrow> string \<Rightarrow> string" where
  "ssl_debug_message cloud rg =
     ''Turning off SSL warnings for '' @ cloud @ '':'' @ rg @ '' since verify=False''"

text \<open>
  The two ways \<open>session.get_endpoint\<close> is called: with the fixed auth interface, or with
  service type, service name, interface and region.
\<close>

datatype endpoint_query =
    AuthInterface
  | CatalogQuery pyval pyval pyval string

text \<open>
  The external collaborators, taken as parameters: keystoneauth's \<open>session.Session\<close>
  constructor, the catalog lookup and token of a Session, and glanceclient's
  \<open>strip_version\<close>. Each may raise. \<open>session_new auth verify cert timeout\<close> is \<open>Some e\<close>
  when the constructor raises \<open>e\<close> on these arguments (it converts a timeout with
  \<open>float\<close>, which raises on a string that is no number) and \<open>None\<close> when it succeeds.
\<close>

record externals =
  session_new :: "auth_plugin \<Rightarrow> pyval \<Rightarrow> pyval \<Rightarrow> pyval \<Rightarrow> error option"
  session_get_endpoint :: "session \<Rightarrow> endpoint_query \<Rightarrow> error + pyval"
  session_get_token :: "session \<Rightarrow> error + pyval"
  strip_version :: "pyval \<Rightarrow> error + pyval \<times> pyval"

text \<open>
  \<open>CloudConfig.get_session\<close>. The memoized field is assigned only after the constructor
  has returned: when the constructor raises, nothing is memoized.
\<close>

definition get_session :: "externals \<Rightarrow> state \<Rightarrow> (error + session) \<times> state" where
  "get_session ext st =
     (case keystone_session (self st) of
        Some s \<Rightarrow> (Inr s, st)
      | None \<Rightarrow>
          (case auth (self st) of
             None \<Rightarrow> (Inl (OpenStackConfigException ''Problem with auth parameters''), st)
           | Some a \<Rightarrow>
               (case get_requests_verify_args st of
                  (Inl e, st1) \<Rightarrow> (Inl e, st1)
                | (Inr (verify, cert), st1) \<Rightarrow>
                    (let st2 = (if \<not> truthy verify
                                then emit (LogDebug (ssl_debug_message (name (self st1))
                                                       (region (self st1)))) st1
                                else st1);
                         st3 = emit (SquelchWarnings (\<not> truthy verify)) st2
                     in case subscript (config (self st3)) ''api_timeout'' of
                          Inl e \<Rightarrow> (Inl e, st3)
                        | Inr t \<Rightarrow>
                            (case session_new ext a verify cert t of
                               Some e \<Rightarrow> (Inl e, st3)
                             | None \<Rightarrow>
                                 (let s = \<lparr>s_id = sessions_created st3, s_auth = a,
                                           s_verify = verify, s_cert = cert, s_timeout = t\<rparr>
                                  in (Inr s,
                                      st3\<lparr>self := (self st3)\<lparr>keystone_session := Some s\<rparr>,
                                          sessions_created :=
                                            Suc (sessions_created st3)\<rparr>)))))))"

section \<open>Endpoint resolution\<close>

text \<open>\<open>CloudConfig.get_session_endpoint\<close>.\<close>

definition get_session_endpoint :: "externals \<Rightarrow> state \<Rightarrow> string \<Rightarrow> (error + pyval) \<times> state" where
  "get_session_endpoint ext st service_key =
     (let override_endpoint = get_endpoint (self st) service_key
      in if truthy override_endpoint then (Inr override_endpoint, st)
         else (case get_session ext st of
                 (Inl e, st1) \<Rightarrow> (Inl e, st1)
               | (Inr session, st1) \<Rightarrow>
                   if service_key = ''identity''
                   then (session_get_endpoint ext session AuthInterface, st1)
                   else (session_get_endpoint ext session
                           (CatalogQuery (get_service_type (self st1) service_key)
                                         (get_service_name (self st1) service_key)
                                         (get_interface (self st1) (Some service_key))
                                         (region (self st1))), st1)))"

section \<open>Client bridges\<close>

text \<open>
  A keyword argument handed to a client constructor: a configuration value, the Session,
  or the nested \<open>os_options\<close> dict of the swift client.
\<close>

datatype argval = AVal pyval | ASession session | AOptions "(string \<times> pyval) list"

type_synonym kwargs = "(string \<times> argval) list"

text \<open>\<open>d[k] = v\<close> and \<open>d.update(other)\<close> on a dict kept in insertion order.\<close>

fun dict_set :: "string \<Rightarrow> 'v \<Rightarrow> (string \<times> 'v) list \<Rightarrow> (string \<times> 'v) list" where
  "dict_set k v [] = [(k, v)]"
| "dict_set k v ((k', v') # rest) =
     (if k' = k then (k, v) # rest else (k', v') # dict_set k v rest)"

definition dict_update :: "(string \<times> 'v) list \<Rightarrow> (string \<times> 'v) list \<Rightarrow> (string \<times> 'v) list" where
  "dict_update d other = fold (\<lambda>(k, v) acc. dict_set k v acc) other d"

text \<open>
  The client constructor is opaque: the model returns the call it receives,
  \<open>client_class(*constructor_args, **constructor_kwargs)\<close>.
\<close>

record client_call =
  constructor_args :: "pyval list"
  constructor_kwargs :: kwargs

text \<open>\<open>CloudConfig._get_swift_client\<close>; \<open>None\<close> when there is no endpoint.\<close>

definition get_swift_client :: "externals \<Rightarrow> state \<Rightarrow> (error + client_call option) \<times> state" where
  "get_swift_client ext st =
     (case get_session ext st of
        (Inl e, st1) \<Rightarrow> (Inl e, st1)
      | (Inr session, st1) \<Rightarrow>
          (case session_get_token ext session of
             Inl e \<Rightarrow> (Inl e, st1)
           | Inr token \<Rightarrow>
               (case get_session_endpoint ext st1 ''object-store'' of
                  (Inl e, st2) \<Rightarrow> (Inl e, st2)
                | (Inr endpoint, st2) \<Rightarrow>
                    if \<not> truthy endpoint then (Inr None, st2)
                    else (case getattr (self st2) ''api_timeout'' of
                            Inl e \<Rightarrow> (Inl e, st2)
                          | Inr timeout \<Rightarrow>
                              (Inr (Some
                                 \<lparr>constructor_args = [],
                                  constructor_kwargs =
                                    [(''preauthurl'', AVal endpoint),
                                     (''preauthtoken'', AVal token),
                                     (''auth_version'', AVal (get_api_version (self st2) ''identity'')),
                                     (''os_options'', AOptions
                                        [(''auth_token'', token),
                                         (''object_storage_url'', endpoint),
                                         (''region_name'', get_region_name (self st2) None)]),
                                     (''timeout'', AVal timeout)]\<rparr>), st2)))))"

text \<open>
  \<open>CloudConfig.get_legacy_client\<close>, lines 249 to 261: the positional version argument
  and the identity endpoint workaround, run when \<open>pass_version_arg\<close> is true.
\<close>

definition version_arg :: "cloud_config \<Rightarrow> string \<Rightarrow> pyval" where
  "version_arg c service_key =
     (let version = get_api_version c service_key
      in if service_key = ''network'' \<and> version = PStr ''2'' then PStr ''2.0'' else version)"

text \<open>
  \<open>CloudConfig.get_legacy_client\<close>. \<open>interface_key\<close> is optional (\<open>not interface_key\<close>
  holds for \<open>None\<close> and the empty string); \<open>kw\<close> are the caller's keyword arguments.
\<close>

definition get_legacy_client ::
    "externals \<Rightarrow> state \<Rightarrow> string \<Rightarrow> string option \<Rightarrow> bool \<Rightarrow> kwargs
      \<Rightarrow> (error + client_call option) \<times> state" where
  "get_legacy_client ext st service_key interface_key pass_version_arg kw =
     (if service_key = ''object-store'' then get_swift_client ext st
      else
       (let interface = get_interface (self st) (Some service_key) in
        (case get_session_endpoint ext st service_key of
           (Inl e, st1) \<Rightarrow> (Inl e, st1)
         | (Inr endpoint, st1) \<Rightarrow>
            (let ikey = (case interface_key of
                           None \<Rightarrow> (if service_key = ''image'' then ''interface''
                                     else ''endpoint_type'')
                         | Some k \<Rightarrow> (if k = []
                                       then (if service_key = ''image'' then ''interface''
                                             else ''endpoint_type'')
                                       else k)) in
             (case get_session ext st1 of
                (Inl e, st2) \<Rightarrow> (Inl e, st2)
              | (Inr session, st2) \<Rightarrow>
                 (let kwargs0 =
                        [(''session'', ASession session),
                         (''service_name'', AVal (get_service_name (self st2) service_key)),
                         (''service_type'', AVal (get_service_type (self st2) service_key)),
                         (''region_name'', AVal (PStr (region (self st2))))] in
                  (case (if service_key = ''image''
                         then (case strip_version ext endpoint of
                                 Inl e \<Rightarrow> Inl e
                               | Inr (endpoint', version) \<Rightarrow>
                                   Inr (dict_set ''endpoint'' (AVal endpoint') kwargs0))
                         else Inr kwargs0) of
                     Inl e \<Rightarrow> (Inl e, st2)
                   | Inr kwargs1 \<Rightarrow>
                      (let kwargs2 = dict_set ikey (AVal interface) (dict_update kwargs1 kw) in
                       (if pass_version_arg then
                          (let version = version_arg (self st2) service_key in
                           (if service_key = ''identity''
                               \<and> ''endpoint'' \<notin> set (map fst kwargs2)
                            then (case get_session_endpoint ext st2 ''identity'' of
                                    (Inl e, st3) \<Rightarrow> (Inl e, st3)
                                  | (Inr endpoint', st3) \<Rightarrow>
                                      (Inr (Some
                                         \<lparr>constructor_args = [version],
                                          constructor_kwargs =
                                            dict_set ''endpoint'' (AVal endpoint') kwargs2\<rparr>),
                                       st3))
                            else (Inr (Some \<lparr>constructor_args = [version],
                                             constructor_kwargs = kwargs2\<rparr>), st2)))
                        else (Inr (Some \<lparr>constructor_args = [],
                                         constructor_kwargs = kwargs2\<rparr>), st2))))))))))"

section \<open>Cache policy delegation\<close>

definition get_cache_expiration_time :: "cloud_config \<Rightarrow> pyval" where
  "get_cache_expiration_time c =
     (case openstack_cfg c of Some oc \<Rightarrow> cache_expiration_time oc | None \<Rightarrow> PNone)"

definition get_cache_path :: "cloud_config \<Rightarrow> pyval" where
  "get_cache_path c = (case openstack_cfg c of Some oc \<Rightarrow> cache_path oc | None \<Rightarrow> PNone)"

definition get_cache_class :: "cloud_config \<Rightarrow> pyval" where
  "get_cache_class c = (case openstack_cfg c of Some oc \<Rightarrow> cache_class oc | None \<Rightarrow> PNone)"

definition get_cache_arguments :: "cloud_config \<Rightarrow> pyval" where
  "get_cache_arguments c =
     (case openstack_cfg c of Some oc \<Rightarrow> cache_arguments oc | None \<Rightarrow> PNone)"

definition get_cache_expiration :: "cloud_config \<Rightarrow> config option" where
  "get_cache_expiration c =
     (case openstack_cfg c of Some oc \<Rightarrow> Some (cache_expiration oc) | None \<Rightarrow> None)"

text \<open>
  \<open>CloudConfig.get_cache_resource_expiration\<close>. Python's builtin \<open>float\<close> is the
  parameter \<open>py_float\<close>; it raises on a value it cannot convert. When no
  \<open>OpenStackConfig\<close> is bound the method body falls off its end, which returns \<open>None\<close>.
\<close>

definition get_cache_resource_expiration ::
    "(pyval \<Rightarrow> error + pyval) \<Rightarrow> cloud_config \<Rightarrow> string \<Rightarrow> pyval \<Rightarrow> error + pyval" where
  "get_cache_resource_expiration py_float c resource dflt =
     (case openstack_cfg c of
        Some oc \<Rightarrow>
          (let expiration = cache_expiration oc
           in if resource \<notin> set (map fst expiration) then Inr dflt
              else (case subscript expiration resource of
                      Inl e \<Rightarrow> Inl e
                    | Inr v \<Rightarrow> py_float v))
      | None \<Rightarrow> Inr PNone)"

section \<open>Auxiliary notions used to state the properties\<close>

text \<open>
  The configuration with \<open>replace('-', '_')\<close> applied to every key, as line 44 builds
  the list it tests membership in.
\<close>

definition normalize_keys :: "config \<Rightarrow> config" where
  "normalize_keys d = map (\<lambda>(k, v). (replace_dash k, v)) d"

text \<open>A caller that invokes \<open>get_session\<close> \<open>n\<close> times in sequence and collects the outcomes.\<close>

fun get_session_calls ::
    "externals \<Rightarrow> nat \<Rightarrow> state \<Rightarrow> (error + session) list \<times> state" where
  "get_session_calls ext 0 st = ([], st)"
| "get_session_calls ext (Suc n) st =
     (case get_session ext st of
        (r, st1) \<Rightarrow> (case get_session_calls ext n st1 of (rs, st2) \<Rightarrow> (r # rs, st2)))"

text \<open>
  Example collaborators (a Session constructor that raises on the timeout \<open>'abc'\<close>, as
  \<open>float('abc')\<close> does) and an example profile (auth plugin bound, the loader's defaults
  for \<open>verify\<close>, \<open>cacert\<close> and \<open>api_timeout\<close>, version 2 for network and compute), on
  which the operations are evaluated.
\<close>

definition example_externals :: externals where
  "example_externals =
     \<lparr>session_new = (\<lambda>a verify cert timeout.
                       if timeout = PStr ''abc''
                       then Some (ExternalError ''ValueError'') else None),
      session_get_endpoint = (\<lambda>s q. Inr (PStr ''https://catalog.example/v2'')),
      session_get_token = (\<lambda>s. Inr (PStr ''token'')),
      strip_version = (\<lambda>e. Inr (e, PNone))\<rparr>"

definition example_state :: state where
  "example_state =
     \<lparr>self = init ''cloud'' ''region''
               [(''verify'', PBool True), (''cacert'', PNone), (''api_timeout'', PNone),
                (''network_api_version'', PStr ''2''), (''compute_api_version'', PStr ''2'')]
               False (Some (AuthPlugin 0)) None,
      sessions_created = 0, trace = []\<rparr>"

section \<open>Dictionary and string lemmas\<close>

lemma in_keys_iff: "k \<in> fst ` set d \<longleftrightarrow> map_of d k \<noteq> None"
  by (simp add: map_of_eq_None_iff)

lemma subscript_present: "k \<in> fst ` set d \<Longrightarrow> subscript d k = Inr (dict_get d k dflt)"
  by (auto simp: subscript_def dict_get_def map_of_eq_None_iff split: option.splits)

lemma subscript_Some: "map_of d k = Some v \<Longrightarrow> subscript d k = Inr v"
  by (simp add: subscript_def)

lemma subscript_None: "map_of d k = None \<Longrightarrow> subscript d k = Inl (KeyError k)"
  by (simp add: subscript_def)

lemma dict_get_Some: "map_of d k = Some v \<Longrightarrow> dict_get d k dflt = v"
  by (simp add: dict_get_def)

lemma dict_get_None: "map_of d k = None \<Longrightarrow> dict_get d k dflt = dflt"
  by (simp add: dict_get_def)

lemma no_dash_after_replace: "CHR ''-'' \<notin> set (replace_dash s)"
  by (auto simp: replace_dash_def)

lemma replace_dash_id: "CHR ''-'' \<notin> set s \<Longrightarrow> replace_dash s = s"
  by (induction s) (auto simp: replace_dash_def)

lemma dict_eq_iff:
  "dict_eq d1 d2 \<longleftrightarrow>
     (\<forall>k. map_option py_key (map_of d1 k) = map_option py_key (map_of d2 k))"
proof
  assume h: "dict_eq d1 d2"
  show "\<forall>k. map_option py_key (map_of d1 k) = map_option py_key (map_of d2 k)"
  proof
    fix k
    show "map_option py_key (map_of d1 k) = map_option py_key (map_of d2 k)"
    proof (cases "k \<in> set (map fst d1 @ map fst d2)")
      case True
      with h show ?thesis unfolding dict_eq_def by blast
    next
      case False
      then have "map_of d1 k = None" and "map_of d2 k = None"
        by (simp_all add: map_of_eq_None_iff)
      then show ?thesis by simp
    qed
  qed
next
  assume "\<forall>k. map_option py_key (map_of d1 k) = map_option py_key (map_of d2 k)"
  then show "dict_eq d1 d2" unfolding dict_eq_def by blast
qed

section \<open>Attribute access\<close>

text \<open>
  With no dashed key in the configuration, \<open>__getattr__\<close> is a plain lookup of the
  requested key (less its \<open>os_\<close> prefix) that yields \<open>None\<close> for a missing key.
\<close>

lemma getattr_no_dashed_keys:
  assumes "\<forall>k \<in> fst ` set (config c). CHR ''-'' \<notin> set k"
  shows "getattr c key =
           Inr (dict_get (config c) (if startswith key ''os_'' then drop 3 key else key) PNone)"
proof -
  define key' where "key' = (if startswith key ''os_'' then drop 3 key else key)"
  have "\<forall>k \<in> fst ` set (config c). replace_dash k = k"
    using assms replace_dash_id by blast
  then have same: "replace_dash ` fst ` set (config c) = fst ` set (config c)"
    by force
  show ?thesis
  proof (cases "key' \<in> fst ` set (config c)")
    case True
    then show ?thesis
      using same subscript_present [OF True, of PNone]
      by (simp add: getattr_def Let_def key'_def image_image)
  next
    case False
    then have "map_of (config c) key' = None" by (simp add: in_keys_iff)
    with False show ?thesis
      using same by (simp add: getattr_def Let_def key'_def image_image dict_get_def)
  qed
qed

text \<open>
  The membership test of line 44 runs over the normalized keys, the lookup of line 45 over
  the stored ones: a request that matches a dashed key only after normalization raises.
\<close>

lemma getattr_key_error:
  "getattr (init ''cloud'' ''region'' [(''a-b'', PInt 1)] False None None) ''a_b''
     = Inl (KeyError ''a_b'')"
  by (simp add: getattr_def init_def startswith_def replace_dash_def subscript_def)

text \<open>
  Claim C1, as stated, fails: the requested key is not normalized. With the configuration
  \<open>{'a_b': 1}\<close> the request \<open>a-b\<close> yields \<open>None\<close>, although the normalized request
  \<open>a_b\<close> is a key of the normalized configuration, with value 1.
\<close>

theorem getattr_request_not_normalized:
  "getattr (init ''cloud'' ''region'' [(''a_b'', PInt 1)] False None None) ''a-b'' = Inr PNone
   \<and> subscript (normalize_keys [(''a_b'', PInt 1)]) (replace_dash ''a-b'') = Inr (PInt 1)"
  by (simp add: getattr_def init_def startswith_def replace_dash_def subscript_def
      normalize_keys_def)

text \<open>
  Claim C1, amended: \<open>__getattr__\<close> strips a leading \<open>os_\<close> from the requested key and
  leaves the key otherwise as it is. Unless the stripped key matches a configuration key
  only through that key's dash normalization, the call does not raise: it returns the
  value stored under the stripped key when the stripped key is among the normalized
  configuration keys, and \<open>None\<close> otherwise. A requested key that contains a dash always
  yields \<open>None\<close>.
\<close>

theorem getattr_strips_prefix_and_looks_up:
  assumes "key' = (if startswith key ''os_'' then drop 3 key else key)"
    and "key' \<in> replace_dash ` fst ` set (config c) \<longrightarrow> key' \<in> fst ` set (config c)"
  shows "getattr c key =
           Inr (if key' \<in> replace_dash ` fst ` set (config c)
                then dict_get (config c) key' PNone else PNone)
         \<and> (CHR ''-'' \<in> set key' \<longrightarrow> getattr c key = Inr PNone)"
proof
  show "getattr c key =
           Inr (if key' \<in> replace_dash ` fst ` set (config c)
                then dict_get (config c) key' PNone else PNone)"
    using assms by (auto simp: getattr_def Let_def subscript_present image_image)
  show "CHR ''-'' \<in> set key' \<longrightarrow> getattr c key = Inr PNone"
    using assms(1) no_dash_after_replace by (auto simp: getattr_def Let_def)
qed

theorem getattr_strips_prefix_and_looks_up_witness:
  "getattr (init ''cloud'' ''region'' [(''a-b'', PInt 1), (''verify'', PBool True)] False None None)
      ''os_verify'' = Inr (PBool True)
   \<and> getattr (init ''cloud'' ''region'' [(''a-b'', PInt 1), (''verify'', PBool True)] False None None)
      ''a-b'' = Inr PNone"
  using getattr_strips_prefix_and_looks_up [of "''verify''" "''os_verify''"
          "init ''cloud'' ''region'' [(''a-b'', PInt 1), (''verify'', PBool True)] False None None"]
        getattr_strips_prefix_and_looks_up [of "''a-b''" "''a-b''"
          "init ''cloud'' ''region'' [(''a-b'', PInt 1), (''verify'', PBool True)] False None None"]
  by (simp add: init_def startswith_def replace_dash_def dict_get_def)

section \<open>Equality\<close>

lemma eq_iff_fields:
  "eq a b \<longleftrightarrow> name a = name b \<and> region a = region b
     \<and> (\<forall>k. map_option py_key (map_of (config a) k) = map_option py_key (map_of (config b) k))"
  by (simp add: eq_def dict_eq_iff)

lemma eq_reflexive: "eq a a"
  by (simp add: eq_iff_fields)

lemma eq_symmetric: "eq a b \<Longrightarrow> eq b a"
  by (simp add: eq_iff_fields)

lemma eq_transitive: "eq a b \<Longrightarrow> eq b c \<Longrightarrow> eq a c"
  by (simp add: eq_iff_fields)

text \<open>
  Claim C8: two profiles are equal exactly when their names, their regions and their
  configurations (as Python dicts: the same keys with \<open>==\<close> values) are equal. Equality is
  reflexive, symmetric and transitive; changing \<open>force_ipv4\<close>, the auth plugin, the
  \<open>OpenStackConfig\<close> reference or the memoized session of either side leaves the verdict
  as it is; \<open>__ne__\<close> is the negation of \<open>__eq__\<close>.
\<close>

theorem eq_depends_on_name_region_config:
  "(eq a b \<longleftrightarrow> name a = name b \<and> region a = region b
      \<and> (\<forall>k. map_option py_key (map_of (config a) k) = map_option py_key (map_of (config b) k)))
   \<and> eq a a
   \<and> (eq a b \<longrightarrow> eq b a)
   \<and> (eq a b \<and> eq b c \<longrightarrow> eq a c)
   \<and> eq (a\<lparr>force_ipv4 := f, auth := au, openstack_cfg := oc, keystone_session := ks\<rparr>) b = eq a b
   \<and> eq a (b\<lparr>force_ipv4 := f, auth := au, openstack_cfg := oc, keystone_session := ks\<rparr>) = eq a b
   \<and> ne a b = (\<not> eq a b)"
proof -
  have "eq (a\<lparr>force_ipv4 := f, auth := au, openstack_cfg := oc, keystone_session := ks\<rparr>) b
          = eq a b"
    and "eq a (b\<lparr>force_ipv4 := f, auth := au, openstack_cfg := oc, keystone_session := ks\<rparr>)
          = eq a b"
    by (simp_all add: eq_def)
  then show ?thesis
    using eq_iff_fields [of a b] eq_reflexive [of a] eq_symmetric [of a b]
      eq_transitive [of a b c]
    by (simp add: ne_def)
qed

theorem eq_depends_on_name_region_config_witness:
  "eq (init ''cloud'' ''region'' [(''verify'', PBool True), (''cacert'', PNone)] False None None)
      (init ''cloud'' ''region'' [(''cacert'', PNone), (''verify'', PInt 1)] True
         (Some (AuthPlugin 0)) None)
   \<and> eq (init ''cloud'' ''region'' [(''cacert'', PNone), (''verify'', PInt 1)] True
         (Some (AuthPlugin 0)) None)
        (init ''cloud'' ''region'' [(''verify'', PBool True), (''cacert'', PNone)] False None None)
   \<and> \<not> eq (init ''cloud'' ''region'' [(''verify'', PBool True)] False None None)
          (init ''cloud'' ''other'' [(''verify'', PBool True)] False None None)"
  using eq_depends_on_name_region_config
    [of "init ''cloud'' ''region'' [(''verify'', PBool True), (''cacert'', PNone)] False None None"
        "init ''cloud'' ''region'' [(''cacert'', PNone), (''verify'', PInt 1)] True
           (Some (AuthPlugin 0)) None"]
    eq_depends_on_name_region_config
    [of "init ''cloud'' ''region'' [(''verify'', PBool True)] False None None"
        "init ''cloud'' ''other'' [(''verify'', PBool True)] False None None"]
  by (simp add: init_def)

section \<open>Service discovery\<close>

text \<open>
  What the loop collects: every key that ends in one of the three suffixes contributes
  the key less its last two underscore-separated fields; for a key of the form
  \<open>{service}_api_version\<close>, \<open>{service}_service_type\<close> or \<open>{service}_service_name\<close>
  that is the service identifier.
\<close>

lemma split_nonempty: "split c s \<noteq> []"
  by (induction s) (auto split: list.splits)

lemma split_append_sep: "split c (a @ c # b) = split c a @ split c b"
proof (induction a)
  case Nil
  then show ?case by simp
next
  case (Cons x a)
  then show ?case
    using split_nonempty [of c a]
    by (cases "split c a") (auto split: list.splits)
qed

lemma drop_last2_append: "drop_last2 (xs @ [a, b]) = xs"
  by (simp add: drop_last2_def)

lemma join_split: "join [c] (split c s) = s"
proof (induction s)
  case Nil
  then show ?case by simp
next
  case (Cons x s)
  show ?case
  proof (cases "x = c")
    case True
    with Cons show ?thesis
      using split_nonempty [of c s] by (cases "split c s") auto
  next
    case False
    with Cons show ?thesis
      using split_nonempty [of c s]
      by (cases "split c s"; cases "tl (split c s)") auto
  qed
qed

lemma strip_service_suffix:
  "join ''_'' (drop_last2 (split (CHR ''_'') (svc @ ''_api_version''))) = svc"
  "join ''_'' (drop_last2 (split (CHR ''_'') (svc @ ''_service_type''))) = svc"
  "join ''_'' (drop_last2 (split (CHR ''_'') (svc @ ''_service_name''))) = svc"
  using split_append_sep [of "CHR ''_''" svc "''api_version''"]
    split_append_sep [of "CHR ''_''" svc "''service_type''"]
    split_append_sep [of "CHR ''_''" svc "''service_name''"]
    join_split [of "CHR ''_''" svc]
  by (simp_all add: drop_last2_append)

lemma services_loop_set:
  "set (services_loop cfg) =
     (\<lambda>key. join ''_'' (drop_last2 (split (CHR ''_'') key))) `
       {key \<in> fst ` set cfg. endswith key ''api_version'' \<or> endswith key ''service_type''
                                \<or> endswith key ''service_name''}"
  by (induction cfg rule: services_loop.induct) auto

text \<open>The scenario of the specification.\<close>

lemma get_services_scenario:
  "get_services (init ''cloud'' ''region''
     [(''compute_api_version'', PStr ''2''), (''network_service_type'', PStr ''network''),
      (''other_key'', PInt 1)] False None None) = {''compute'', ''network''}"
  by (simp add: get_services_def init_def endswith_def drop_last2_def)

text \<open>
  Claim C6 at the input where the code departs from it: the suffixes tested on lines 81
  to 83 have no leading underscore, so the cloud-wide key \<open>api_version\<close>, which does not
  end in \<open>_api_version\<close>, is taken for a per-service key and contributes the empty
  service identifier.
\<close>

theorem get_services_bare_suffix:
  "get_services (init ''cloud'' ''region'' [(''api_version'', PStr ''2'')] False None None)
     = {[]}"
  by (simp add: get_services_def init_def endswith_def drop_last2_def)

section \<open>Cache policy\<close>

text \<open>With an \<open>OpenStackConfig\<close> bound: the converted entry, or the default.\<close>

lemma cache_resource_expiration_bound:
  assumes "openstack_cfg c = Some oc"
  shows "get_cache_resource_expiration py_float c resource dflt =
           (case map_of (cache_expiration oc) resource of
              None \<Rightarrow> Inr dflt
            | Some v \<Rightarrow> py_float v)"
proof (cases "map_of (cache_expiration oc) resource")
  case None
  then have "resource \<notin> fst ` set (cache_expiration oc)" by (simp add: in_keys_iff)
  with None assms show ?thesis by (simp add: get_cache_resource_expiration_def Let_def)
next
  case (Some v)
  then have "resource \<in> fst ` set (cache_expiration oc)" by (simp add: in_keys_iff)
  with Some assms show ?thesis
    by (simp add: get_cache_resource_expiration_def Let_def subscript_def)
qed

text \<open>
  Claim C7 at the input where the code departs from it: with no \<open>OpenStackConfig\<close> bound
  the method returns \<open>None\<close>, whatever default the caller supplied (here 5).
\<close>

theorem cache_resource_expiration_unbound:
  "get_cache_resource_expiration py_float (init ''cloud'' ''region'' [] False None None)
     ''server'' (PInt 5) = Inr PNone"
  by (simp add: get_cache_resource_expiration_def init_def)

section \<open>TLS and credential materialization: properties\<close>

lemma verify_value_present:
  assumes "map_of (config (self st)) ''verify'' = Some v"
    and "map_of (config (self st)) ''cacert'' = Some ca"
  shows "verify_value st =
           (Inr (if truthy v \<and> truthy ca then ca else v),
            if \<not> truthy v \<and> truthy ca
            then emit (Warning (cacert_warning (name (self st)))) st else st)"
  using assms by (simp add: verify_value_def Let_def subscript_def)

lemma client_cert_present:
  assumes "truthy (dict_get c ''cert'' PNone) \<longrightarrow> map_of c ''key'' = Some k"
  shows "client_cert c =
           Inr (if truthy (dict_get c ''cert'' PNone) \<and> truthy k
                then PTuple (dict_get c ''cert'' PNone) k
                else dict_get c ''cert'' PNone)"
  using assms by (simp add: client_cert_def Let_def subscript_def)

lemma emit_self [simp]: "self (emit ev st) = self st"
  by (simp add: emit_def)

lemma emit_sessions_created [simp]: "sessions_created (emit ev st) = sessions_created st"
  by (simp add: emit_def)

lemma emit_trace [simp]: "trace (emit ev st) = trace st @ [ev]"
  by (simp add: emit_def)

lemma verify_value_self: "verify_value st = (r, st') \<Longrightarrow> self st' = self st"
  by (auto simp: verify_value_def Let_def split: sum.splits if_splits)

lemma verify_value_created:
  "verify_value st = (r, st') \<Longrightarrow> sessions_created st' = sessions_created st"
  by (auto simp: verify_value_def Let_def split: sum.splits if_splits)

lemma get_requests_verify_args_self:
  "get_requests_verify_args st = (r, st') \<Longrightarrow> self st' = self st"
  by (auto simp: get_requests_verify_args_def split: sum.splits prod.splits
      dest: verify_value_self)

lemma get_requests_verify_args_created:
  "get_requests_verify_args st = (r, st') \<Longrightarrow> sessions_created st' = sessions_created st"
  by (auto simp: get_requests_verify_args_def split: sum.splits prod.splits
      dest: verify_value_created)

lemma get_requests_verify_args_present:
  assumes "map_of (config (self st)) ''verify'' = Some v"
    and "map_of (config (self st)) ''cacert'' = Some ca"
  shows "get_requests_verify_args st =
           (case client_cert (config (self st)) of
              Inl e \<Rightarrow> Inl e
            | Inr cert \<Rightarrow> Inr (if truthy v \<and> truthy ca then ca else v, cert),
            if \<not> truthy v \<and> truthy ca
            then emit (Warning (cacert_warning (name (self st)))) st else st)"
  by (simp add: get_requests_verify_args_def verify_value_present [OF assms] split: sum.splits)

lemma client_cert_cases:
  "client_cert c =
     (case map_of c ''cert'' of
        None \<Rightarrow> Inr PNone
      | Some cert \<Rightarrow>
          if truthy cert
          then (case map_of c ''key'' of
                  None \<Rightarrow> Inl (KeyError ''key'')
                | Some k \<Rightarrow> Inr (if truthy k then PTuple cert k else cert))
          else Inr cert)"
  by (simp add: client_cert_def Let_def subscript_def dict_get_def split: option.splits)

text \<open>A missing \<open>verify\<close> or \<open>cacert\<close> entry raises \<open>KeyError\<close>, with nothing emitted.\<close>

lemma get_requests_verify_args_missing:
  "(map_of (config (self st)) ''verify'' = None
      \<longrightarrow> get_requests_verify_args st = (Inl (KeyError ''verify''), st))
   \<and> (map_of (config (self st)) ''verify'' = Some v
        \<and> map_of (config (self st)) ''cacert'' = None
      \<longrightarrow> get_requests_verify_args st = (Inl (KeyError ''cacert''), st))"
  by (simp add: get_requests_verify_args_def verify_value_def subscript_def Let_def)

text \<open>The two scenarios of the specification.\<close>

lemma verify_args_scenario_ca_bundle:
  "get_requests_verify_args
     \<lparr>self = init ''cloud'' ''region'' [(''verify'', PBool True), (''cacert'', PStr ''/ca.pem'')]
               False None None,
      sessions_created = 0, trace = []\<rparr>
   = (Inr (PStr ''/ca.pem'', PNone),
      \<lparr>self = init ''cloud'' ''region'' [(''verify'', PBool True), (''cacert'', PStr ''/ca.pem'')]
               False None None,
       sessions_created = 0, trace = []\<rparr>)"
  by (simp add: get_requests_verify_args_def verify_value_def client_cert_def init_def
      subscript_def dict_get_def)

lemma verify_args_scenario_contradictory:
  "get_requests_verify_args
     \<lparr>self = init ''cloud'' ''region'' [(''verify'', PBool False), (''cacert'', PStr ''/ca.pem'')]
               False None None,
      sessions_created = 0, trace = []\<rparr>
   = (Inr (PBool False, PNone),
      \<lparr>self = init ''cloud'' ''region'' [(''verify'', PBool False), (''cacert'', PStr ''/ca.pem'')]
               False None None,
       sessions_created = 0,
       trace = [Warning (cacert_warning ''cloud'')]\<rparr>)"
  by (simp add: get_requests_verify_args_def verify_value_def client_cert_def init_def
      subscript_def dict_get_def emit_def)

text \<open>
  Claim C4, as stated, fails: \<open>verify\<close> and \<open>cacert\<close> are read with \<open>self.config[...]\<close>,
  so the method raises where the claim has it return the raw \<open>verify\<close> flag. With the
  configuration \<open>{'verify': False}\<close> it raises \<open>KeyError('cacert')\<close>.
\<close>

theorem verify_args_missing_cacert:
  "get_requests_verify_args
     \<lparr>self = init ''cloud'' ''region'' [(''verify'', PBool False)] False None None,
      sessions_created = 0, trace = []\<rparr>
   = (Inl (KeyError ''cacert''),
      \<lparr>self = init ''cloud'' ''region'' [(''verify'', PBool False)] False None None,
       sessions_created = 0, trace = []\<rparr>)"
  by (simp add: get_requests_verify_args_def verify_value_def init_def subscript_def)

text \<open>
  Claim C4, amended: for every configuration that holds a \<open>verify\<close> and a \<open>cacert\<close> entry
  (and a \<open>key\<close> entry whenever \<open>cert\<close> is truthy), \<open>get_requests_verify_args\<close> returns;
  its first component is \<open>cacert\<close> when \<open>verify\<close> and \<open>cacert\<close> are both truthy and the
  raw \<open>verify\<close> value otherwise, and in that second case it emits the warning exactly
  when \<open>cacert\<close> is truthy and still returns.
\<close>

theorem verify_args_effective_verify:
  assumes "map_of (config (self st)) ''verify'' = Some v"
    and "map_of (config (self st)) ''cacert'' = Some ca"
    and "truthy (dict_get (config (self st)) ''cert'' PNone)
           \<longrightarrow> map_of (config (self st)) ''key'' \<noteq> None"
  shows "\<exists>cert. get_requests_verify_args st =
           (Inr (if truthy v \<and> truthy ca then ca else v, cert),
            if \<not> (truthy v \<and> truthy ca) \<and> truthy ca
            then emit (Warning (cacert_warning (name (self st)))) st else st)"
proof -
  have "\<exists>cert. client_cert (config (self st)) = Inr cert"
    using assms(3) by (auto simp: client_cert_cases dict_get_def split: option.splits)
  then obtain cert where "client_cert (config (self st)) = Inr cert" ..
  then show ?thesis
    by (auto simp: get_requests_verify_args_present [OF assms(1,2)])
qed

theorem verify_args_effective_verify_witness:
  "(\<exists>cert. get_requests_verify_args
     \<lparr>self = init ''cloud'' ''region'' [(''verify'', PBool True), (''cacert'', PStr ''/ca.pem'')]
               False None None,
      sessions_created = 0, trace = []\<rparr>
   = (Inr (PStr ''/ca.pem'', cert),
      \<lparr>self = init ''cloud'' ''region'' [(''verify'', PBool True), (''cacert'', PStr ''/ca.pem'')]
               False None None,
       sessions_created = 0, trace = []\<rparr>))
   \<and> (\<exists>cert. get_requests_verify_args
     \<lparr>self = init ''cloud'' ''region'' [(''verify'', PBool False), (''cacert'', PStr ''/ca.pem'')]
               False None None,
      sessions_created = 0, trace = []\<rparr>
   = (Inr (PBool False, cert),
      \<lparr>self = init ''cloud'' ''region'' [(''verify'', PBool False), (''cacert'', PStr ''/ca.pem'')]
               False None None,
       sessions_created = 0,
       trace = [Warning (cacert_warning ''cloud'')]\<rparr>))"
  using verify_args_effective_verify
    [of "\<lparr>self = init ''cloud'' ''region''
                   [(''verify'', PBool True), (''cacert'', PStr ''/ca.pem'')] False None None,
          sessions_created = 0, trace = []\<rparr>" "PBool True" "PStr ''/ca.pem''"]
    verify_args_effective_verify
    [of "\<lparr>self = init ''cloud'' ''region''
                   [(''verify'', PBool False), (''cacert'', PStr ''/ca.pem'')] False None None,
          sessions_created = 0, trace = []\<rparr>" "PBool False" "PStr ''/ca.pem''"]
  by (simp add: init_def dict_get_def emit_def)

text \<open>
  Claim C5, as stated, fails: with a \<open>cert\<close> configured and no \<open>key\<close> entry in the
  mapping the method raises \<open>KeyError('key')\<close> instead of returning \<open>cert\<close> alone.
\<close>

theorem verify_args_missing_key:
  "get_requests_verify_args
     \<lparr>self = init ''cloud'' ''region''
               [(''verify'', PBool True), (''cacert'', PNone), (''cert'', PStr ''/c.pem'')]
               False None None,
      sessions_created = 0, trace = []\<rparr>
   = (Inl (KeyError ''key''),
      \<lparr>self = init ''cloud'' ''region''
               [(''verify'', PBool True), (''cacert'', PNone), (''cert'', PStr ''/c.pem'')]
               False None None,
       sessions_created = 0, trace = []\<rparr>)"
  by (simp add: get_requests_verify_args_def verify_value_def client_cert_def init_def
      subscript_def dict_get_def)

text \<open>
  Claim C5, amended: for every configuration that holds a \<open>verify\<close> and a \<open>cacert\<close> entry,
  the second component returned is the pair \<open>(cert, key)\<close> when \<open>cert\<close> and \<open>key\<close> are
  both present and truthy, \<open>cert\<close> alone when \<open>cert\<close> is truthy and the \<open>key\<close> entry is
  present but falsy, \<open>None\<close> when there is no \<open>cert\<close> entry, and the stored falsy value
  when \<open>cert\<close> is present but falsy; in each of these cases the method returns.
\<close>

theorem verify_args_client_cert:
  assumes "map_of (config (self st)) ''verify'' = Some v"
    and "map_of (config (self st)) ''cacert'' = Some ca"
  shows "(map_of (config (self st)) ''cert'' = Some cert \<and> truthy cert
            \<and> map_of (config (self st)) ''key'' = Some k \<and> truthy k
          \<longrightarrow> (\<exists>verify st'. get_requests_verify_args st = (Inr (verify, PTuple cert k), st')))
       \<and> (map_of (config (self st)) ''cert'' = Some cert \<and> truthy cert
            \<and> map_of (config (self st)) ''key'' = Some k \<and> \<not> truthy k
          \<longrightarrow> (\<exists>verify st'. get_requests_verify_args st = (Inr (verify, cert), st')))
       \<and> (map_of (config (self st)) ''cert'' = None
          \<longrightarrow> (\<exists>verify st'. get_requests_verify_args st = (Inr (verify, PNone), st')))
       \<and> (map_of (config (self st)) ''cert'' = Some cert \<and> \<not> truthy cert
          \<longrightarrow> (\<exists>verify st'. get_requests_verify_args st = (Inr (verify, cert), st')))"
  by (simp add: get_requests_verify_args_present [OF assms] client_cert_cases)

theorem verify_args_client_cert_witness:
  "(\<exists>verify st'. get_requests_verify_args
     \<lparr>self = init ''cloud'' ''region''
               [(''verify'', PBool True), (''cacert'', PNone), (''cert'', PStr ''/c.pem''),
                (''key'', PStr ''/k.pem'')] False None None,
      sessions_created = 0, trace = []\<rparr>
     = (Inr (verify, PTuple (PStr ''/c.pem'') (PStr ''/k.pem'')), st'))
   \<and> (\<exists>verify st'. get_requests_verify_args
     \<lparr>self = init ''cloud'' ''region''
               [(''verify'', PBool True), (''cacert'', PNone), (''cert'', PStr ''/c.pem''),
                (''key'', PNone)] False None None,
      sessions_created = 0, trace = []\<rparr>
     = (Inr (verify, PStr ''/c.pem''), st'))
   \<and> (\<exists>verify st'. get_requests_verify_args
     \<lparr>self = init ''cloud'' ''region''
               [(''verify'', PBool True), (''cacert'', PNone)] False None None,
      sessions_created = 0, trace = []\<rparr>
     = (Inr (verify, PNone), st'))"
  using verify_args_client_cert
    [of "\<lparr>self = init ''cloud'' ''region''
               [(''verify'', PBool True), (''cacert'', PNone), (''cert'', PStr ''/c.pem''),
                (''key'', PStr ''/k.pem'')] False None None,
          sessions_created = 0, trace = []\<rparr>" "PBool True" PNone
        "PStr ''/c.pem''" "PStr ''/k.pem''"]
    verify_args_client_cert
    [of "\<lparr>self = init ''cloud'' ''region''
               [(''verify'', PBool True), (''cacert'', PNone), (''cert'', PStr ''/c.pem''),
                (''key'', PNone)] False None None,
          sessions_created = 0, trace = []\<rparr>" "PBool True" PNone
        "PStr ''/c.pem''" PNone]
    verify_args_client_cert
    [of "\<lparr>self = init ''cloud'' ''region''
               [(''verify'', PBool True), (''cacert'', PNone)] False None None,
          sessions_created = 0, trace = []\<rparr>" "PBool True" PNone
        PNone PNone]
  by (simp add: init_def)

section \<open>Session acquisition: properties\<close>

lemma get_session_memoized:
  "keystone_session (self st) = Some s \<Longrightarrow> get_session ext st = (Inr s, st)"
  by (simp add: get_session_def)

lemma get_session_no_auth:
  "keystone_session (self st) = None \<Longrightarrow> auth (self st) = None \<Longrightarrow>
   get_session ext st = (Inl (OpenStackConfigException ''Problem with auth parameters''), st)"
  by (simp add: get_session_def)

lemma get_session_calls_memoized:
  "keystone_session (self st) = Some s \<Longrightarrow>
   get_session_calls ext n st = (replicate n (Inr s), st)"
  by (induction n) (simp_all add: get_session_memoized)

lemma get_session_calls_no_auth:
  "keystone_session (self st) = None \<Longrightarrow> auth (self st) = None \<Longrightarrow>
   get_session_calls ext n st =
     (replicate n (Inl (OpenStackConfigException ''Problem with auth parameters'')), st)"
  by (induction n) (simp_all add: get_session_no_auth)

text \<open>The first call, when every read succeeds and the constructor accepts its arguments.\<close>

lemma get_session_first:
  assumes "keystone_session (self st) = None"
    and "auth (self st) = Some a"
    and "map_of (config (self st)) ''verify'' = Some v"
    and "map_of (config (self st)) ''cacert'' = Some ca"
    and "client_cert (config (self st)) = Inr cert"
    and "map_of (config (self st)) ''api_timeout'' = Some t"
    and "session_new ext a (if truthy v \<and> truthy ca then ca else v) cert t = None"
    and "s = \<lparr>s_id = sessions_created st, s_auth = a,
              s_verify = (if truthy v \<and> truthy ca then ca else v),
              s_cert = cert, s_timeout = t\<rparr>"
  shows "fst (get_session ext st) = Inr s
       \<and> self (snd (get_session ext st)) = (self st)\<lparr>keystone_session := Some s\<rparr>
       \<and> sessions_created (snd (get_session ext st)) = Suc (sessions_created st)"
  using assms
  by (cases "truthy v"; cases "truthy ca")
     (simp_all add: get_session_def get_requests_verify_args_present [OF assms(3,4)]
        Let_def subscript_def emit_def)

text \<open>The first call, when the constructor raises: the exception propagates.\<close>

lemma get_session_constructor_raises:
  assumes "keystone_session (self st) = None"
    and "auth (self st) = Some a"
    and "map_of (config (self st)) ''verify'' = Some v"
    and "map_of (config (self st)) ''cacert'' = Some ca"
    and "client_cert (config (self st)) = Inr cert"
    and "map_of (config (self st)) ''api_timeout'' = Some t"
    and "session_new ext a (if truthy v \<and> truthy ca then ca else v) cert t = Some e"
  shows "fst (get_session ext st) = Inl e"
  using assms
  by (cases "truthy v"; cases "truthy ca")
     (simp_all add: get_session_def get_requests_verify_args_present [OF assms(3,4)]
        Let_def subscript_def emit_def)

text \<open>
  Whatever the outcome, \<open>get_session\<close> changes no field of the profile but the memoized
  session; when it raises, it changes no field at all and constructs nothing.
\<close>

lemma get_session_outcome:
  assumes "get_session ext st = (r, st')"
  shows "(\<exists>ks. self st' = (self st)\<lparr>keystone_session := ks\<rparr>)
       \<and> (\<forall>e. r = Inl e \<longrightarrow> self st' = self st \<and> sessions_created st' = sessions_created st)"
proof (cases "keystone_session (self st)")
  case (Some s)
  with assms have "st' = st" and "r = Inr s" by (simp_all add: get_session_def)
  then show ?thesis by (auto intro: exI [of _ "keystone_session (self st)"])
next
  case None
  note ks = this
  show ?thesis
  proof (cases "auth (self st)")
    case None
    with ks assms have "st' = st" by (simp add: get_session_def)
    then show ?thesis by (auto intro: exI [of _ "keystone_session (self st)"])
  next
    case (Some a)
    obtain r1 st1 where v: "get_requests_verify_args st = (r1, st1)"
      by (cases "get_requests_verify_args st")
    then have s1: "self st1 = self st" and c1: "sessions_created st1 = sessions_created st"
      by (rule get_requests_verify_args_self, rule get_requests_verify_args_created)
    show ?thesis
    proof (cases r1)
      case (Inl e)
      with v Some ks assms have "st' = st1" by (simp add: get_session_def)
      with s1 c1 show ?thesis by (auto intro: exI [of _ "keystone_session (self st)"])
    next
      case (Inr vc)
      obtain verify cert where vc: "vc = (verify, cert)" by (cases vc)
      show ?thesis
      proof (cases "subscript (config (self st)) ''api_timeout''")
        case (Inl e)
        then show ?thesis
          using v Inr vc Some ks assms s1 c1
          by (cases "truthy verify")
             (auto simp: get_session_def Let_def intro: exI [of _ "keystone_session (self st)"])
      next
        case t: (Inr t)
        then show ?thesis
          using v Inr vc Some ks assms s1 c1
          by (cases "truthy verify"; cases "session_new ext a verify cert t")
             (auto simp: get_session_def Let_def intro: exI [of _ "keystone_session (self st)"])
      qed
    qed
  qed
qed

lemma get_session_self:
  "get_session ext st = (r, st') \<Longrightarrow> \<exists>ks. self st' = (self st)\<lparr>keystone_session := ks\<rparr>"
  by (drule get_session_outcome) blast

lemma get_session_config:
  "get_session ext st = (r, st') \<Longrightarrow> config (self st') = config (self st)"
  by (drule get_session_self) auto

lemma get_session_region:
  "get_session ext st = (r, st') \<Longrightarrow> region (self st') = region (self st)"
  by (drule get_session_self) auto

lemma get_session_endpoint_config:
  "get_session_endpoint ext st k = (r, st') \<Longrightarrow> config (self st') = config (self st)"
  by (auto simp: get_session_endpoint_def Let_def split: if_splits prod.splits sum.splits
      dest: get_session_config)

lemma get_api_version_config:
  "config c' = config c \<Longrightarrow> get_api_version c' k = get_api_version c k"
  by (simp add: get_api_version_def)

text \<open>
  Claim C2, as stated, fails: an auth plugin alone does not make the first call succeed.
  With an auth plugin bound and the empty configuration, \<open>get_session\<close> raises
  \<open>KeyError('verify')\<close> and constructs and memoizes nothing.
\<close>

theorem get_session_missing_verify:
  "get_session example_externals
     \<lparr>self = init ''cloud'' ''region'' [] False (Some (AuthPlugin 0)) None,
      sessions_created = 0, trace = []\<rparr>
   = (Inl (KeyError ''verify''),
      \<lparr>self = init ''cloud'' ''region'' [] False (Some (AuthPlugin 0)) None,
       sessions_created = 0, trace = []\<rparr>)"
  by (simp add: get_session_def get_requests_verify_args_def verify_value_def init_def
      subscript_def)

text \<open>
  Claim C2, amended: a profile fresh from its constructor has no memoized session. For
  every profile with an auth plugin bound and no session yet, whose configuration holds
  \<open>verify\<close>, \<open>cacert\<close> and \<open>api_timeout\<close> entries, whose client certificate resolves
  (a \<open>key\<close> entry is present whenever \<open>cert\<close> is truthy) and whose Session constructor
  accepts the resulting arguments, the first call of \<open>get_session\<close> constructs exactly
  one Session (a new identity, built from the auth plugin, the effective verify value,
  the client certificate and the timeout) and memoizes it; every later sequential call
  returns that same Session and leaves the state as it is, constructing nothing, and so
  does a call made after the configuration or the auth plugin has been changed.
  A call that raises, whatever the reason (a missing entry, no auth plugin, the
  constructor raising), leaves the profile as it was and constructs nothing.
\<close>

theorem get_session_memoizes:
  "keystone_session (init nm rg cfg f4 au oc) = None
   \<and> (keystone_session (self st) = None \<and> auth (self st) = Some a
        \<and> map_of (config (self st)) ''verify'' = Some v
        \<and> map_of (config (self st)) ''cacert'' = Some ca
        \<and> client_cert (config (self st)) = Inr cert
        \<and> map_of (config (self st)) ''api_timeout'' = Some t
        \<and> session_new ext a (if truthy v \<and> truthy ca then ca else v) cert t = None
      \<longrightarrow> (\<exists>s st'. get_session ext st = (Inr s, st')
            \<and> s_id s = sessions_created st \<and> s_auth s = a \<and> s_timeout s = t
            \<and> s_verify s = (if truthy v \<and> truthy ca then ca else v) \<and> s_cert s = cert
            \<and> keystone_session (self st') = Some s
            \<and> sessions_created st' = Suc (sessions_created st)
            \<and> (\<forall>n. get_session_calls ext n st' = (replicate n (Inr s), st'))
            \<and> (\<forall>cfg' au'.
                  get_session ext (st'\<lparr>self := (self st')\<lparr>config := cfg', auth := au'\<rparr>\<rparr>)
                    = (Inr s, st'\<lparr>self := (self st')\<lparr>config := cfg', auth := au'\<rparr>\<rparr>))))
   \<and> (\<forall>e st'. get_session ext st = (Inl e, st')
         \<longrightarrow> self st' = self st \<and> sessions_created st' = sessions_created st)"
proof (intro conjI impI allI)
  show "keystone_session (init nm rg cfg f4 au oc) = None" by (simp add: init_def)
next
  fix e st'
  assume "get_session ext st = (Inl e, st')"
  then show "self st' = self st" and "sessions_created st' = sessions_created st"
    by (auto dest: get_session_outcome)
next
  assume h: "keystone_session (self st) = None \<and> auth (self st) = Some a
        \<and> map_of (config (self st)) ''verify'' = Some v
        \<and> map_of (config (self st)) ''cacert'' = Some ca
        \<and> client_cert (config (self st)) = Inr cert
        \<and> map_of (config (self st)) ''api_timeout'' = Some t
        \<and> session_new ext a (if truthy v \<and> truthy ca then ca else v) cert t = None"
  define s where "s = \<lparr>s_id = sessions_created st, s_auth = a,
                        s_verify = (if truthy v \<and> truthy ca then ca else v),
                        s_cert = cert, s_timeout = t\<rparr>"
  define st' where "st' = snd (get_session ext st)"
  have first: "fst (get_session ext st) = Inr s"
    "self st' = (self st)\<lparr>keystone_session := Some s\<rparr>"
    "sessions_created st' = Suc (sessions_created st)"
    using get_session_first [of st a v ca cert t ext s] h s_def by (simp_all add: st'_def)
  then have call: "get_session ext st = (Inr s, st')"
    by (simp add: st'_def prod_eq_iff)
  have memo: "keystone_session (self st') = Some s" using first(2) by simp
  have later: "\<forall>n. get_session_calls ext n st' = (replicate n (Inr s), st')"
    using get_session_calls_memoized [OF memo] by simp
  have changed: "\<forall>cfg' au'.
      get_session ext (st'\<lparr>self := (self st')\<lparr>config := cfg', auth := au'\<rparr>\<rparr>)
        = (Inr s, st'\<lparr>self := (self st')\<lparr>config := cfg', auth := au'\<rparr>\<rparr>)"
    using memo by (simp add: get_session_memoized)
  show "\<exists>s st'. get_session ext st = (Inr s, st')
            \<and> s_id s = sessions_created st \<and> s_auth s = a \<and> s_timeout s = t
            \<and> s_verify s = (if truthy v \<and> truthy ca then ca else v) \<and> s_cert s = cert
            \<and> keystone_session (self st') = Some s
            \<and> sessions_created st' = Suc (sessions_created st)
            \<and> (\<forall>n. get_session_calls ext n st' = (replicate n (Inr s), st'))
            \<and> (\<forall>cfg' au'.
                  get_session ext (st'\<lparr>self := (self st')\<lparr>config := cfg', auth := au'\<rparr>\<rparr>)
                    = (Inr s, st'\<lparr>self := (self st')\<lparr>config := cfg', auth := au'\<rparr>\<rparr>))"
    using call memo first(3) later changed
    by (intro exI [of _ s] exI [of _ st']) (simp add: s_def)
qed

theorem get_session_memoizes_witness:
  "(\<exists>s st'. get_session example_externals example_state = (Inr s, st')
      \<and> s_id s = 0 \<and> s_auth s = AuthPlugin 0
      \<and> keystone_session (self st') = Some s
      \<and> sessions_created st' = 1
      \<and> get_session_calls example_externals 2 st' = ([Inr s, Inr s], st'))
   \<and> (\<exists>st'. get_session example_externals
         \<lparr>self = init ''cloud'' ''region''
                   [(''verify'', PBool True), (''cacert'', PNone), (''api_timeout'', PStr ''abc'')]
                   False (Some (AuthPlugin 0)) None,
          sessions_created = 0, trace = []\<rparr> = (Inl (ExternalError ''ValueError''), st')
      \<and> keystone_session (self st') = None
      \<and> sessions_created st' = 0)"
proof
  have "\<exists>s st'. get_session example_externals example_state = (Inr s, st')
            \<and> s_id s = sessions_created example_state \<and> s_auth s = AuthPlugin 0
            \<and> s_timeout s = PNone
            \<and> s_verify s = PBool True \<and> s_cert s = PNone
            \<and> keystone_session (self st') = Some s
            \<and> sessions_created st' = Suc (sessions_created example_state)
            \<and> (\<forall>n. get_session_calls example_externals n st' = (replicate n (Inr s), st'))
            \<and> (\<forall>cfg' au'.
                  get_session example_externals
                     (st'\<lparr>self := (self st')\<lparr>config := cfg', auth := au'\<rparr>\<rparr>)
                    = (Inr s, st'\<lparr>self := (self st')\<lparr>config := cfg', auth := au'\<rparr>\<rparr>))"
    using get_session_memoizes
      [where st = example_state and ext = example_externals and a = "AuthPlugin 0"
         and v = "PBool True" and ca = PNone and cert = PNone and t = PNone]
    by (simp add: example_state_def example_externals_def init_def client_cert_def dict_get_def)
  then obtain s st' where h: "get_session example_externals example_state = (Inr s, st')"
     "s_id s = sessions_created example_state" "s_auth s = AuthPlugin 0"
     "keystone_session (self st') = Some s"
     "sessions_created st' = Suc (sessions_created example_state)"
     "\<forall>n. get_session_calls example_externals n st' = (replicate n (Inr s), st')"
    by blast
  from h(6) have "get_session_calls example_externals 2 st' = (replicate 2 (Inr s), st')"
    by blast
  then have "get_session_calls example_externals 2 st' = ([Inr s, Inr s], st')"
    by (simp add: numeral_2_eq_2)
  with h show "\<exists>s st'. get_session example_externals example_state = (Inr s, st')
      \<and> s_id s = 0 \<and> s_auth s = AuthPlugin 0
      \<and> keystone_session (self st') = Some s
      \<and> sessions_created st' = 1
      \<and> get_session_calls example_externals 2 st' = ([Inr s, Inr s], st')"
    by (auto simp: example_state_def)
next
  define stF where "stF =
         \<lparr>self = init ''cloud'' ''region''
                   [(''verify'', PBool True), (''cacert'', PNone), (''api_timeout'', PStr ''abc'')]
                   False (Some (AuthPlugin 0)) None,
          sessions_created = 0, trace = []\<rparr>"
  have "\<exists>st'. get_session example_externals stF = (Inl (ExternalError ''ValueError''), st')"
    by (simp add: stF_def get_session_def get_requests_verify_args_def verify_value_def
        client_cert_def example_externals_def init_def subscript_def dict_get_def Let_def)
  then obtain st' where
    r: "get_session example_externals stF = (Inl (ExternalError ''ValueError''), st')" ..
  have "self st' = self stF \<and> sessions_created st' = sessions_created stF"
    using get_session_memoizes [where st = stF and ext = example_externals] r by blast
  then have "keystone_session (self st') = None \<and> sessions_created st' = 0"
    by (simp add: stF_def init_def)
  with r show "\<exists>st'. get_session example_externals
         \<lparr>self = init ''cloud'' ''region''
                   [(''verify'', PBool True), (''cacert'', PNone), (''api_timeout'', PStr ''abc'')]
                   False (Some (AuthPlugin 0)) None,
          sessions_created = 0, trace = []\<rparr> = (Inl (ExternalError ''ValueError''), st')
      \<and> keystone_session (self st') = None
      \<and> sessions_created st' = 0"
    unfolding stF_def by blast
qed

text \<open>
  Claim C3: for every profile with no auth plugin bound (and hence no memoized session:
  the constructor leaves it absent and only a successful call sets it), every call of
  \<open>get_session\<close> raises \<open>OpenStackConfigException('Problem with auth parameters')\<close>
  and leaves the state, the memoized field included, as it was, so that any number of
  sequential calls each raise it again; \<open>get_session_endpoint\<close> for a service with no
  endpoint override in the configuration raises the same exception.
\<close>

theorem get_session_unbound_auth:
  assumes "auth (self st) = None"
    and "keystone_session (self st) = None"
  shows "get_session ext st
           = (Inl (OpenStackConfigException ''Problem with auth parameters''), st)
       \<and> (\<forall>n. get_session_calls ext n st =
                 (replicate n (Inl (OpenStackConfigException ''Problem with auth parameters'')),
                  st))
       \<and> (map_of (config (self st)) (service_key @ ''_endpoint'') = None \<longrightarrow>
            get_session_endpoint ext st service_key =
              (Inl (OpenStackConfigException ''Problem with auth parameters''), st))"
  using get_session_no_auth [OF assms(2,1)] get_session_calls_no_auth [OF assms(2,1)]
  by (simp add: get_session_endpoint_def get_endpoint_def dict_get_def)

theorem get_session_unbound_auth_witness:
  "get_session example_externals
      \<lparr>self = init ''cloud'' ''region'' [(''verify'', PBool True)] False None None,
       sessions_created = 0, trace = []\<rparr>
     = (Inl (OpenStackConfigException ''Problem with auth parameters''),
        \<lparr>self = init ''cloud'' ''region'' [(''verify'', PBool True)] False None None,
         sessions_created = 0, trace = []\<rparr>)
   \<and> get_session_endpoint example_externals
        \<lparr>self = init ''cloud'' ''region'' [(''verify'', PBool True)] False None None,
         sessions_created = 0, trace = []\<rparr> ''compute''
     = (Inl (OpenStackConfigException ''Problem with auth parameters''),
        \<lparr>self = init ''cloud'' ''region'' [(''verify'', PBool True)] False None None,
         sessions_created = 0, trace = []\<rparr>)"
  using get_session_unbound_auth
    [of "\<lparr>self = init ''cloud'' ''region'' [(''verify'', PBool True)] False None None,
          sessions_created = 0, trace = []\<rparr>" example_externals "''compute''"]
  by (simp add: init_def)

section \<open>Endpoint resolution and the legacy client bridge: properties\<close>

text \<open>
  Claim C10: when the configuration maps \<open>{service}_endpoint\<close> to a falsy value (the
  empty string, \<open>False\<close>, \<open>None\<close>), \<open>get_session_endpoint\<close> does not return it: it calls
  \<open>get_session\<close>, propagates its exception if it raises, and otherwise returns what the
  Session's catalog lookup gives. With no auth plugin bound (and no session) it raises
  the \<open>OpenStackConfigException\<close>.
\<close>

theorem falsy_endpoint_override_ignored:
  assumes "map_of (config (self st)) (service_key @ ''_endpoint'') = Some v"
    and "\<not> truthy v"
  shows "(\<forall>s st1. get_session ext st = (Inr s, st1) \<longrightarrow>
            get_session_endpoint ext st service_key =
              (session_get_endpoint ext s
                 (if service_key = ''identity'' then AuthInterface
                  else CatalogQuery (get_service_type (self st) service_key)
                                    (get_service_name (self st) service_key)
                                    (get_interface (self st) (Some service_key))
                                    (region (self st))), st1))
       \<and> (\<forall>e st1. get_session ext st = (Inl e, st1) \<longrightarrow>
            get_session_endpoint ext st service_key = (Inl e, st1))
       \<and> (auth (self st) = None \<and> keystone_session (self st) = None \<longrightarrow>
            get_session_endpoint ext st service_key =
              (Inl (OpenStackConfigException ''Problem with auth parameters''), st))"
proof -
  have ov: "\<not> truthy (get_endpoint (self st) service_key)"
    using assms by (simp add: get_endpoint_def dict_get_def)
  have a: "\<forall>s st1. get_session ext st = (Inr s, st1) \<longrightarrow>
            get_session_endpoint ext st service_key =
              (session_get_endpoint ext s
                 (if service_key = ''identity'' then AuthInterface
                  else CatalogQuery (get_service_type (self st) service_key)
                                    (get_service_name (self st) service_key)
                                    (get_interface (self st) (Some service_key))
                                    (region (self st))), st1)"
  proof (intro allI impI)
    fix s st1
    assume g: "get_session ext st = (Inr s, st1)"
    have "config (self st1) = config (self st)" and "region (self st1) = region (self st)"
      using g by (rule get_session_config, rule get_session_region)
    then have "get_service_type (self st1) service_key = get_service_type (self st) service_key"
      and "get_service_name (self st1) service_key = get_service_name (self st) service_key"
      and "get_interface (self st1) (Some service_key) = get_interface (self st) (Some service_key)"
      and "region (self st1) = region (self st)"
      by (simp_all add: get_service_type_def get_service_name_def get_interface_def Let_def)
    then show "get_session_endpoint ext st service_key =
              (session_get_endpoint ext s
                 (if service_key = ''identity'' then AuthInterface
                  else CatalogQuery (get_service_type (self st) service_key)
                                    (get_service_name (self st) service_key)
                                    (get_interface (self st) (Some service_key))
                                    (region (self st))), st1)"
      using ov g by (simp add: get_session_endpoint_def)
  qed
  have b: "\<forall>e st1. get_session ext st = (Inl e, st1) \<longrightarrow>
            get_session_endpoint ext st service_key = (Inl e, st1)"
    using ov by (simp add: get_session_endpoint_def)
  have c: "auth (self st) = None \<and> keystone_session (self st) = None \<longrightarrow>
            get_session_endpoint ext st service_key =
              (Inl (OpenStackConfigException ''Problem with auth parameters''), st)"
    using ov by (simp add: get_session_endpoint_def get_session_no_auth)
  from a b c show ?thesis by blast
qed

theorem falsy_endpoint_override_ignored_witness:
  "get_session_endpoint example_externals
     \<lparr>self = init ''cloud'' ''region'' [(''compute_endpoint'', PStr [])] False None None,
      sessions_created = 0, trace = []\<rparr> ''compute''
   = (Inl (OpenStackConfigException ''Problem with auth parameters''),
      \<lparr>self = init ''cloud'' ''region'' [(''compute_endpoint'', PStr [])] False None None,
       sessions_created = 0, trace = []\<rparr>)"
  using falsy_endpoint_override_ignored
    [of "\<lparr>self = init ''cloud'' ''region'' [(''compute_endpoint'', PStr [])] False None None,
          sessions_created = 0, trace = []\<rparr>" "''compute''" "PStr []" example_externals]
  by (simp add: init_def)

text \<open>
  The other outcome, on the example profile with the falsy override \<open>''\<close> for compute:
  the session is constructed and the catalog's answer is returned.
\<close>

lemma falsy_endpoint_override_catalog:
  "fst (get_session_endpoint example_externals
          (example_state\<lparr>self := (self example_state)
             \<lparr>config := (''compute_endpoint'', PStr []) # config (self example_state)\<rparr>\<rparr>)
          ''compute'')
   = Inr (PStr ''https://catalog.example/v2'')"
  by (simp add: get_session_endpoint_def get_session_def get_requests_verify_args_def
      verify_value_def client_cert_def example_state_def example_externals_def init_def
      subscript_def dict_get_def get_endpoint_def emit_def Let_def)

text \<open>
  Claim C9: whenever \<open>get_legacy_client\<close>, called with \<open>pass_version_arg\<close> true for a
  service other than \<open>object-store\<close>, reaches the client constructor, the one positional
  argument is the resolved API version of the service, except that for the network
  service the string \<open>'2'\<close> is replaced by \<open>'2.0'\<close>.
\<close>

theorem legacy_client_version_arg:
  assumes "get_legacy_client ext st service_key interface_key True kw = (Inr (Some call), st')"
    and "service_key \<noteq> ''object-store''"
  shows "constructor_args call =
           [if service_key = ''network'' \<and> get_api_version (self st) service_key = PStr ''2''
            then PStr ''2.0'' else get_api_version (self st) service_key]"
proof -
  obtain r1 st1 where e1: "get_session_endpoint ext st service_key = (r1, st1)"
    by (cases "get_session_endpoint ext st service_key")
  obtain r2 st2 where e2: "get_session ext st1 = (r2, st2)"
    by (cases "get_session ext st1")
  have cfg: "config (self st2) = config (self st)"
    using get_session_endpoint_config [OF e1] get_session_config [OF e2] by simp
  then have "get_api_version (self st2) service_key = get_api_version (self st) service_key"
    by (simp add: get_api_version_def)
  then have ver: "version_arg (self st2) service_key =
           (if service_key = ''network'' \<and> get_api_version (self st) service_key = PStr ''2''
            then PStr ''2.0'' else get_api_version (self st) service_key)"
    by (simp only: version_arg_def Let_def)
  show ?thesis
    using assms e1 e2
    by (auto simp: get_legacy_client_def Let_def ver [symmetric]
        split: sum.splits prod.splits if_splits)
qed

lemmas eval_defs = get_legacy_client_def get_session_endpoint_def get_session_def
  get_requests_verify_args_def verify_value_def client_cert_def example_state_def
  example_externals_def init_def subscript_def dict_get_def get_endpoint_def get_interface_def
  get_service_name_def get_service_type_def emit_def dict_update_def version_arg_def
  get_api_version_def Let_def

theorem legacy_client_version_arg_witness:
  "(\<exists>call st'. get_legacy_client example_externals example_state ''network'' None True []
        = (Inr (Some call), st') \<and> constructor_args call = [PStr ''2.0''])
   \<and> (\<exists>call st'. get_legacy_client example_externals example_state ''compute'' None True []
        = (Inr (Some call), st') \<and> constructor_args call = [PStr ''2''])"
proof
  have "\<exists>call st'. get_legacy_client example_externals example_state ''network'' None True []
        = (Inr (Some call), st')"
    by (simp add: eval_defs)
  then obtain call st' where
    r: "get_legacy_client example_externals example_state ''network'' None True []
        = (Inr (Some call), st')" by blast
  have "constructor_args call = [PStr ''2.0'']"
    using legacy_client_version_arg [OF r]
    by (simp add: get_api_version_def example_state_def init_def dict_get_def)
  with r show "\<exists>call st'. get_legacy_client example_externals example_state ''network'' None True []
        = (Inr (Some call), st') \<and> constructor_args call = [PStr ''2.0'']" by blast
next
  have "\<exists>call st'. get_legacy_client example_externals example_state ''compute'' None True []
        = (Inr (Some call), st')"
    by (simp add: eval_defs)
  then obtain call st' where
    r: "get_legacy_client example_externals example_state ''compute'' None True []
        = (Inr (Some call), st')" by blast
  have "constructor_args call = [PStr ''2'']"
    using legacy_client_version_arg [OF r]
    by (simp add: get_api_version_def example_state_def init_def dict_get_def)
  with r show "\<exists>call st'. get_legacy_client example_externals example_state ''compute'' None True []
        = (Inr (Some call), st') \<and> constructor_args call = [PStr ''2'']" by blast
qed

end
